theory Spec2Isabelle
  imports Complex_Main
begin

section \<open>Values, exceptions and the data of \<open>api.py\<close>\<close>

text \<open>
  The client of \<open>src/livekit/plugins/avatario/api.py\<close> is embedded with its effects made
  explicit: every function returns its result (\<open>Inl\<close> an exception, \<open>Inr\<close> a normal
  return) together with the trace of the effects it performed (requests handed to the
  HTTP session, log records, sleeps), in the order of their occurrence.
\<close>

text \<open>Python values that a \<open>dict[str, Any]\<close> payload can hold; a dict keeps insertion order.\<close>

datatype pyval =
    PNone
  | PBool bool
  | PInt int
  | PStr string
  | PList "pyval list"
  | PDict "(string \<times> pyval) list"

type_synonym pydict = "(string \<times> pyval) list"

text \<open>\<open>NotGivenOr[T]\<close>: the sentinel \<open>NOT_GIVEN\<close> (which is falsy) or a value.\<close>

datatype 'a not_given_or = NOT_GIVEN | Given 'a

text \<open>
  The exceptions (subclasses of \<open>Exception\<close>) that occur: the module's own
  \<open>AvatarioException\<close>, the two framework errors raised or tested by \<open>_post\<close>, and any
  other exception of the HTTP library (transport failure, timeout, undecodable body).
\<close>

datatype exn =
    AvatarioException string
  | APIStatusError string int string
  | APIConnectionError string
  | OtherException string

text \<open>\<open>isinstance(e, APIConnectionError)\<close>.\<close>

fun is_APIConnectionError :: "exn \<Rightarrow> bool" where
  "is_APIConnectionError (APIConnectionError m) = True"
| "is_APIConnectionError e = False"

record conn_options =
  max_retry :: int
  retry_interval :: real
  timeout :: real

record request =
  url :: string
  headers :: "(string \<times> string) list"
  json :: pydict
  req_timeout :: real

text \<open>
  The response object as \<open>_post\<close> reads it: the flag \<open>response.ok\<close>, \<open>response.status\<close>,
  and what \<open>await response.text()\<close> and \<open>await response.json()\<close> give (either may raise).
\<close>

record response =
  ok :: bool
  status :: int
  body_text :: "exn + string"
  body_json :: "exn + pyval"

text \<open>Entering \<open>async with self._session.post(...)\<close> raises or binds a response.\<close>

datatype outcome = Raises exn | Responds response

text \<open>
  The HTTP session: what the \<open>k\<close>-th call of \<open>post\<close> (counted from 0) does with the request.
\<close>

type_synonym session = "nat \<Rightarrow> request \<Rightarrow> outcome"

record client =
  api_key :: string
  conn_opts :: conn_options
  http_session :: session

datatype event =
    Post request
  | LogWarning string exn
  | LogException string exn
  | Sleep real

type_synonym env = "string \<Rightarrow> string option"

section \<open>Python operators used by the module\<close>

text \<open>
  \<open>x or os.getenv(name)\<close> for \<open>x : NotGivenOr[str]\<close>: \<open>x\<close> when it is truthy (given and
  non-empty), the environment's value (\<open>None\<close> when unset) otherwise.
\<close>

fun or_getenv :: "string not_given_or \<Rightarrow> string option \<Rightarrow> string option" where
  "or_getenv NOT_GIVEN e = e"
| "or_getenv (Given s) e = (if s \<noteq> [] then Some s else e)"

text \<open>\<open>properties or {}\<close>.\<close>

fun or_empty_dict :: "pydict not_given_or \<Rightarrow> pydict" where
  "or_empty_dict NOT_GIVEN = []"
| "or_empty_dict (Given d) = (if d \<noteq> [] then d else [])"

text \<open>\<open>d[k] = v\<close>: an existing key keeps its position and takes the new value.\<close>

fun dict_set :: "string \<Rightarrow> pyval \<Rightarrow> pydict \<Rightarrow> pydict" where
  "dict_set k v [] = [(k, v)]"
| "dict_set k v ((k', v') # d) = (if k' = k then (k, v) # d else (k', v') # dict_set k v d)"

text \<open>\<open>d.update(e)\<close>: the items of \<open>e\<close> are stored into \<open>d\<close> in order.\<close>

fun dict_update :: "pydict \<Rightarrow> pydict \<Rightarrow> pydict" where
  "dict_update d [] = d"
| "dict_update d ((k, v) # e) = dict_update (dict_set k v d) e"

text \<open>\<open>range(n)\<close> for a Python int \<open>n\<close>: empty when \<open>n \<le> 0\<close>.\<close>

definition range_py :: "int \<Rightarrow> int list" where
  "range_py n = map int [0..<nat n]"

section \<open>\<open>AvatarioAPI.__init__\<close>\<close>

definition DEFAULT_API_URL :: string where
  "DEFAULT_API_URL = ''''"

text \<open>
  \<open>fresh\<close> is the session that \<open>aiohttp.ClientSession()\<close> would create when the caller
  passes none.
\<close>

definition init ::
  "env \<Rightarrow> session \<Rightarrow> string not_given_or \<Rightarrow> conn_options \<Rightarrow> session option \<Rightarrow> exn + client" where
  "init environ fresh key opts sess =
     (case or_getenv key (environ ''AVATARIO_API_KEY'') of
        None \<Rightarrow> Inl (AvatarioException ''AVATARIO_API_KEY must be set'')
      | Some k \<Rightarrow>
          Inr \<lparr> api_key = k, conn_opts = opts,
                http_session = (case sess of Some s \<Rightarrow> s | None \<Rightarrow> fresh) \<rparr>)"

section \<open>\<open>AvatarioAPI._post\<close>\<close>

definition post_request :: "client \<Rightarrow> pydict \<Rightarrow> request" where
  "post_request self payload =
     \<lparr> url = DEFAULT_API_URL @ ''/start_session'',
       headers = [(''Content-Type'', ''application/json''), (''x-api-key'', api_key self)],
       json = payload,
       req_timeout = timeout (conn_opts self) \<rparr>"

text \<open>The body of the \<open>try\<close> block in iteration \<open>i\<close>: \<open>Inl e\<close> when it raises \<open>e\<close>.\<close>

definition try_block :: "client \<Rightarrow> pydict \<Rightarrow> int \<Rightarrow> exn + unit" where
  "try_block self payload i =
     (case http_session self (nat i) (post_request self payload) of
        Raises e \<Rightarrow> Inl e
      | Responds r \<Rightarrow>
          if \<not> ok r then
            (case body_text r of
               Inl e \<Rightarrow> Inl e
             | Inr t \<Rightarrow> Inl (APIStatusError ''Server returned an error'' (status r) t))
          else
            (case body_json r of
               Inl e \<Rightarrow> Inl e
             | Inr j \<Rightarrow> Inr ()))"

text \<open>The \<open>except Exception as e\<close> handler of iteration \<open>i\<close>.\<close>

definition log_failure :: "exn \<Rightarrow> event" where
  "log_failure e =
     (if is_APIConnectionError e then LogWarning ''failed to call avatario api'' e
      else LogException ''failed to call avatario api'' e)"

definition handler :: "client \<Rightarrow> int \<Rightarrow> exn \<Rightarrow> event list" where
  "handler self i e =
     log_failure e #
     (if i < max_retry (conn_opts self) - 1 then [Sleep (retry_interval (conn_opts self))]
      else [])"

text \<open>One iteration of the \<open>for\<close> loop: the effects it performs.\<close>

definition iteration :: "client \<Rightarrow> pydict \<Rightarrow> int \<Rightarrow> event list" where
  "iteration self payload i =
     Post (post_request self payload) #
     (case try_block self payload i of
        Inl e \<Rightarrow> handler self i e
      | Inr u \<Rightarrow> [])"

text \<open>
  The \<open>for\<close> loop over the remaining indices. Its body has no \<open>return\<close> and no \<open>break\<close>,
  so the loop only ends when the indices are used up.
\<close>

fun post_loop :: "client \<Rightarrow> pydict \<Rightarrow> int list \<Rightarrow> event list \<Rightarrow> event list" where
  "post_loop self payload [] tr = tr"
| "post_loop self payload (i # rest) tr =
     post_loop self payload rest (tr @ iteration self payload i)"

text \<open>\<open>_post\<close>: the loop, then the \<open>raise\<close> that follows it.\<close>

definition post :: "client \<Rightarrow> pydict \<Rightarrow> (exn + unit) \<times> event list" where
  "post self payload =
     (Inl (APIConnectionError ''Failed to call Avatario API after all retries''),
      post_loop self payload (range_py (max_retry (conn_opts self))) [])"

section \<open>\<open>AvatarioAPI.start_session\<close>\<close>

text \<open>The dict literal of lines 61 to 65.\<close>

definition base_payload :: "string \<Rightarrow> string \<Rightarrow> pydict \<Rightarrow> pydict" where
  "base_payload avatar_id livekit_agent_identity properties =
     [(''avatario_face_id'', PStr avatar_id),
      (''agent_id'', PStr livekit_agent_identity),
      (''livekit'', PDict properties)]"

text \<open>
  The merge of lines 68 and 69; \<open>utils.is_given\<close> holds of everything but \<open>NOT_GIVEN\<close>.
\<close>

definition merge_extra :: "pydict \<Rightarrow> pydict not_given_or \<Rightarrow> pydict" where
  "merge_extra payload extra_payload =
     (case extra_payload of
        NOT_GIVEN \<Rightarrow> payload
      | Given e \<Rightarrow> dict_update payload e)"

text \<open>The message of the second \<open>raise\<close> (two adjacent string literals in the source).\<close>

definition identity_message :: string where
  "identity_message =
     ''the identity of agent needs to be provided '' @
     ''to ensure its proper communication with avatario backend''"

text \<open>
  \<open>if not avatar_id\<close> holds for \<open>None\<close> and for the empty string, \<open>if not
  livekit_agent_identity\<close> for \<open>NOT_GIVEN\<close> and for the empty string; past both checks
  the two strings are at hand. A \<open>raise\<close> before \<open>_post\<close> leaves the trace empty.
\<close>

definition start_session ::
  "client \<Rightarrow> env \<Rightarrow> string not_given_or \<Rightarrow> string not_given_or \<Rightarrow>
   pydict not_given_or \<Rightarrow> pydict not_given_or \<Rightarrow> (exn + unit) \<times> event list" where
  "start_session self environ avatar_id livekit_agent_identity properties extra_payload =
     (case or_getenv avatar_id (environ ''AVATARIO_REPLICA_ID'') of
        None \<Rightarrow> (Inl (AvatarioException ''avatar_id must be set''), [])
      | Some a \<Rightarrow>
          if a = [] then (Inl (AvatarioException ''avatar_id must be set''), [])
          else
            (case livekit_agent_identity of
               NOT_GIVEN \<Rightarrow> (Inl (AvatarioException identity_message), [])
             | Given g \<Rightarrow>
                 if g = [] then (Inl (AvatarioException identity_message), [])
                 else
                   post self
                     (merge_extra (base_payload a g (or_empty_dict properties)) extra_payload)))"

text \<open>The events of a trace that are requests, and those that are log records.\<close>

fun is_post :: "event \<Rightarrow> bool" where
  "is_post (Post r) = True"
| "is_post e = False"

fun is_log :: "event \<Rightarrow> bool" where
  "is_log (LogWarning m e) = True"
| "is_log (LogException m e) = True"
| "is_log e = False"


text \<open>
  The failed attempt in the words of the specification, for comparison with the test of
  the code: a transport error, or a status outside the range 200 to 299.
\<close>

fun non_2xx_or_error :: "outcome \<Rightarrow> bool" where
  "non_2xx_or_error (Raises e) = True"
| "non_2xx_or_error (Responds r) = (\<not> (200 \<le> status r \<and> status r < 300))"

section \<open>Concrete inputs\<close>

definition example_opts :: conn_options where
  "example_opts = \<lparr> max_retry = 3, retry_interval = 2, timeout = 10 \<rparr>"

definition ok_response :: response where
  "ok_response =
     \<lparr> ok = True, status = 200, body_text = Inr ''{}'', body_json = Inr (PDict []) \<rparr>"

definition error_response :: response where
  "error_response =
     \<lparr> ok = False, status = 500, body_text = Inr ''Internal Server Error'',
       body_json = Inl (OtherException ''ContentTypeError'') \<rparr>"

definition always_ok :: session where
  "always_ok k r = Responds ok_response"

definition always_500 :: session where
  "always_500 k r = Responds error_response"

text \<open>A status 300 answer with a JSON body: not 2xx, and \<open>ok\<close> in the HTTP library.\<close>

definition multiple_choices_response :: response where
  "multiple_choices_response =
     \<lparr> ok = True, status = 300, body_text = Inr ''{}'', body_json = Inr (PDict []) \<rparr>"

definition always_300 :: session where
  "always_300 k r = Responds multiple_choices_response"

definition key_env :: env where
  "key_env name = (if name = ''AVATARIO_API_KEY'' then Some ''from_env'' else None)"

definition no_env :: env where
  "no_env name = None"

definition empty_key_env :: env where
  "empty_key_env name = (if name = ''AVATARIO_API_KEY'' then Some [] else None)"

definition ok_client :: client where
  "ok_client = \<lparr> api_key = ''secret'', conn_opts = example_opts, http_session = always_ok \<rparr>"

definition failing_client :: client where
  "failing_client =
     \<lparr> api_key = ''secret'', conn_opts = example_opts, http_session = always_500 \<rparr>"

definition multiple_choices_client :: client where
  "multiple_choices_client =
     \<lparr> api_key = ''secret'', conn_opts = example_opts, http_session = always_300 \<rparr>"

section \<open>The retry loop\<close>

lemma post_loop_append:
  "post_loop self payload idx tr = tr @ concat (map (iteration self payload) idx)"
  by (induction idx arbitrary: tr) simp_all

lemma post_trace:
  "snd (post self payload) =
     concat (map (iteration self payload) (range_py (max_retry (conn_opts self))))"
  by (simp add: post_def post_loop_append)

lemma posts_of_iteration:
  "filter is_post (iteration self payload i) = [Post (post_request self payload)]"
  by (simp add: iteration_def handler_def log_failure_def split: sum.splits)




lemma filter_trace:
  "filter P (snd (post self payload)) =
     concat (map (\<lambda>i. filter P (iteration self payload i))
       (range_py (max_retry (conn_opts self))))"
  by (simp add: post_trace filter_concat comp_def)

lemma concat_map_const:
  "(\<And>x. x \<in> set xs \<Longrightarrow> f x = ys) \<Longrightarrow> concat (map f xs) = concat (replicate (length xs) ys)"
  by (induction xs) simp_all

lemma concat_replicate_single: "concat (replicate n [x]) = replicate n x"
  by (induction n) simp_all




lemma try_block_cases:
  assumes "http_session self (nat i) (post_request self payload) = out"
    and "out = Raises e \<or>
         (\<exists>r t. out = Responds r \<and> \<not> ok r \<and> body_text r = Inr t \<and>
            e = APIStatusError ''Server returned an error'' (status r) t) \<or>
         (\<exists>r. out = Responds r \<and> \<not> ok r \<and> body_text r = Inl e) \<or>
         (\<exists>r. out = Responds r \<and> ok r \<and> body_json r = Inl e)"
  shows "try_block self payload i = Inl e"
  using assms by (auto simp: try_block_def)

lemma failed_iteration_in_trace:
  assumes "0 \<le> i" and "i < max_retry (conn_opts self)"
    and "try_block self payload i = Inl e"
  shows "\<exists>before after.
            snd (post self payload) =
              before @ Post (post_request self payload) # log_failure e # after \<and>
            length (filter is_post before) = nat i"
proof -
  let ?n = "nat (max_retry (conn_opts self))"
  let ?k = "nat i"
  let ?it = "iteration self payload"
  from assms have k: "?k < ?n" "int ?k = i" by simp_all
  then have "[0..<?n] = [0..<?k] @ ?k # [Suc ?k..<?n]"
    by (metis upt_conv_Cons upt_add_eq_append le_add_diff_inverse less_imp_le_nat zero_le add_0)
  then have idx: "range_py (max_retry (conn_opts self)) =
                    map int [0..<?k] @ i # map int [Suc ?k..<?n]"
    using assms(1) by (simp add: range_py_def)
  define before where "before = concat (map ?it (map int [0..<?k]))"
  define rest where "rest = concat (map ?it (map int [Suc ?k..<?n]))"
  have "?it i = Post (post_request self payload) # handler self i e"
    using assms(3) by (simp add: iteration_def)
  then have it: "?it i = Post (post_request self payload) # log_failure e # tl (handler self i e)"
    by (simp add: handler_def)
  have tr: "snd (post self payload) =
          before @ Post (post_request self payload) # log_failure e #
            (tl (handler self i e) @ rest)"
    by (simp add: post_trace idx it before_def rest_def)
  have "filter is_post before =
          concat (map (\<lambda>j. filter is_post (?it j)) (map int [0..<?k]))"
    by (simp add: before_def filter_concat comp_def)
  also have "\<dots> = concat (replicate (length (map int [0..<?k])) [Post (post_request self payload)])"
    by (rule concat_map_const) (simp add: posts_of_iteration)
  finally have "length (filter is_post before) = ?k"
    by (simp add: concat_replicate_single)
  with tr show ?thesis
    by blast
qed

lemma log_failure_cases:
  "log_failure e = LogWarning ''failed to call avatario api'' e \<or>
   log_failure e = LogException ''failed to call avatario api'' e"
  by (simp add: log_failure_def)

section \<open>Dictionaries\<close>




section \<open>Claims about \<open>_post\<close>\<close>

text \<open>
  C1: an attempt that receives an \<open>ok\<close> response with a JSON body should end \<open>_post\<close>
  with a normal return and no further attempt. The loop body has no \<open>return\<close>: with
  \<open>max_retry = 3\<close> and a session that answers every request with status 200 and the body
  \<open>{}\<close>, \<open>_post\<close> hands three requests to the session, logs nothing, sleeps never, and
  then raises the \<open>APIConnectionError\<close> of its last line.
\<close>

theorem post_raises_after_success:
  "post ok_client [(''agent_id'', PStr ''a'')] =
     (Inl (APIConnectionError ''Failed to call Avatario API after all retries''),
      [Post (post_request ok_client [(''agent_id'', PStr ''a'')]),
       Post (post_request ok_client [(''agent_id'', PStr ''a'')]),
       Post (post_request ok_client [(''agent_id'', PStr ''a'')])])"
  by (simp add: post_def range_py_def ok_client_def example_opts_def upt_rec iteration_def
      try_block_def always_ok_def ok_response_def)




text \<open>
  C8, as stated, has every answer outside the 2xx range caught and logged as a status
  error. An answer with status 300 and a JSON body is not 2xx, yet \<open>response.ok\<close> holds
  of it: no \<open>APIStatusError\<close> is raised and the trace of the run holds no log record.
\<close>

theorem post_non_2xx_unlogged_counterexample:
  "http_session multiple_choices_client 0 (post_request multiple_choices_client []) =
     Responds multiple_choices_response \<and>
   status multiple_choices_response = 300 \<and>
   non_2xx_or_error (Responds multiple_choices_response) \<and>
   filter is_log (snd (post multiple_choices_client [])) = []"
  by (simp add: post_def range_py_def multiple_choices_client_def example_opts_def upt_rec
      iteration_def try_block_def always_300_def multiple_choices_response_def)

text \<open>
  C8, amended: a failure of an attempt as the code detects it is not what \<open>_post\<close> raises.
  Whenever attempt \<open>i\<close> fails with an exception \<open>e\<close> (entering the request raises \<open>e\<close>; or
  the response is not \<open>ok\<close> and \<open>e\<close> is the \<open>APIStatusError\<close> with the status and the body
  text; or reading the text of such a response raises \<open>e\<close>; or decoding the JSON body of an
  \<open>ok\<close> response raises \<open>e\<close>), the trace holds a warning record or an exception record of
  \<open>e\<close> right after the request of that attempt (the request preceded by exactly \<open>i\<close>
  earlier ones), and the exception that \<open>_post\<close> raises is the \<open>APIConnectionError\<close> of its
  last line.
\<close>

theorem post_only_raises_exhaustion:
  assumes "0 \<le> i" and "i < max_retry (conn_opts self)"
    and "http_session self (nat i) (post_request self payload) = out"
    and "out = Raises e \<or>
         (\<exists>r t. out = Responds r \<and> \<not> ok r \<and> body_text r = Inr t \<and>
            e = APIStatusError ''Server returned an error'' (status r) t) \<or>
         (\<exists>r. out = Responds r \<and> \<not> ok r \<and> body_text r = Inl e) \<or>
         (\<exists>r. out = Responds r \<and> ok r \<and> body_json r = Inl e)"
  shows "fst (post self payload) =
           Inl (APIConnectionError ''Failed to call Avatario API after all retries'') \<and>
         (\<exists>before ev after.
            snd (post self payload) = before @ Post (post_request self payload) # ev # after \<and>
            (ev = LogWarning ''failed to call avatario api'' e \<or>
             ev = LogException ''failed to call avatario api'' e) \<and>
            length (filter is_post before) = nat i)"
proof -
  have "try_block self payload i = Inl e"
    using assms(3,4) by (rule try_block_cases)
  with assms(1,2) obtain before after where
    "snd (post self payload) =
       before @ Post (post_request self payload) # log_failure e # after"
    "length (filter is_post before) = nat i"
    using failed_iteration_in_trace by blast
  with log_failure_cases [of e] have
    "\<exists>before ev after.
       snd (post self payload) = before @ Post (post_request self payload) # ev # after \<and>
       (ev = LogWarning ''failed to call avatario api'' e \<or>
        ev = LogException ''failed to call avatario api'' e) \<and>
       length (filter is_post before) = nat i"
    by blast
  then show ?thesis
    by (simp add: post_def)
qed

theorem post_only_raises_exhaustion_witness:
  "(0::int) \<le> 1 \<and> 1 < max_retry (conn_opts failing_client) \<and>
   http_session failing_client (nat 1) (post_request failing_client []) =
     Responds error_response \<and>
   \<not> ok error_response \<and> body_text error_response = Inr ''Internal Server Error'' \<and>
   status error_response = 500 \<and>
   fst (post failing_client []) =
     Inl (APIConnectionError ''Failed to call Avatario API after all retries'') \<and>
   (\<exists>before ev after.
      snd (post failing_client []) = before @ Post (post_request failing_client []) # ev # after \<and>
      (ev = LogWarning ''failed to call avatario api''
              (APIStatusError ''Server returned an error'' 500 ''Internal Server Error'') \<or>
       ev = LogException ''failed to call avatario api''
              (APIStatusError ''Server returned an error'' 500 ''Internal Server Error'')) \<and>
      length (filter is_post before) = nat 1)"
proof -
  have h2: "1 < max_retry (conn_opts failing_client)"
    by (simp add: failing_client_def example_opts_def)
  have h3: "http_session failing_client (nat 1) (post_request failing_client []) =
              Responds error_response"
    by (simp add: failing_client_def always_500_def)
  have r: "\<not> ok error_response" "body_text error_response = Inr ''Internal Server Error''"
    "status error_response = 500"
    by (simp_all add: error_response_def)
  have h4: "Responds error_response =
              Raises (APIStatusError ''Server returned an error'' 500 ''Internal Server Error'') \<or>
         (\<exists>r t. Responds error_response = Responds r \<and> \<not> ok r \<and> body_text r = Inr t \<and>
            APIStatusError ''Server returned an error'' 500 ''Internal Server Error'' =
              APIStatusError ''Server returned an error'' (status r) t) \<or>
         (\<exists>r. Responds error_response = Responds r \<and> \<not> ok r \<and>
            body_text r =
              Inl (APIStatusError ''Server returned an error'' 500 ''Internal Server Error'')) \<or>
         (\<exists>r. Responds error_response = Responds r \<and> ok r \<and>
            body_json r =
              Inl (APIStatusError ''Server returned an error'' 500 ''Internal Server Error''))"
    using r by simp
  have h1: "(0::int) \<le> 1" by simp
  show ?thesis
    using h2 h3 r post_only_raises_exhaustion [OF h1 h2 h3 h4] by simp
qed

text \<open>
  C9: for a client that \<open>__init__\<close> has built, every request that \<open>_post\<close> hands to the
  session, at whatever attempt, carries the two headers \<open>Content-Type: application/json\<close>
  and \<open>x-api-key\<close>, the latter with the key resolved at construction.
\<close>

theorem post_headers:
  assumes "init environ fresh key opts sess = Inr self"
  shows "or_getenv key (environ ''AVATARIO_API_KEY'') = Some (api_key self) \<and>
         (\<forall>r. Post r \<in> set (snd (post self payload)) \<longrightarrow>
            headers r = [(''Content-Type'', ''application/json''), (''x-api-key'', api_key self)])"
proof -
  have key: "or_getenv key (environ ''AVATARIO_API_KEY'') = Some (api_key self)"
    using assms by (auto simp: init_def split: option.splits)
  have "headers r = [(''Content-Type'', ''application/json''), (''x-api-key'', api_key self)]"
    if "Post r \<in> set (snd (post self payload))" for r
  proof -
    from that have "Post r \<in> set (filter is_post (snd (post self payload)))"
      by simp
    then have "Post r \<in> set (concat (map (\<lambda>i. [Post (post_request self payload)])
                 (range_py (max_retry (conn_opts self)))))"
      by (simp only: filter_trace posts_of_iteration)
    then have "r = post_request self payload"
      by auto
    then show ?thesis
      by (simp add: post_request_def)
  qed
  with key show ?thesis by blast
qed

theorem post_headers_witness:
  "init no_env always_500 (Given ''secret'') example_opts None = Inr failing_client \<and>
   or_getenv (Given ''secret'') (no_env ''AVATARIO_API_KEY'') = Some ''secret'' \<and>
   Post (post_request failing_client []) \<in> set (snd (post failing_client [])) \<and>
   headers (post_request failing_client []) =
     [(''Content-Type'', ''application/json''), (''x-api-key'', ''secret'')]"
proof -
  have h: "init no_env always_500 (Given ''secret'') example_opts None = Inr failing_client"
    by (simp add: init_def failing_client_def no_env_def)
  have k: "api_key failing_client = ''secret''"
    by (simp add: failing_client_def)
  have m: "Post (post_request failing_client []) \<in> set (snd (post failing_client []))"
    by (simp add: post_def range_py_def failing_client_def example_opts_def upt_rec iteration_def)
  show ?thesis
    using h m post_headers [OF h, of "[]"] by (simp add: k)
qed

text \<open>
  C10: with \<open>max_retry \<le> 0\<close> the loop body never runs: \<open>_post\<close> hands no request to the
  session and raises the \<open>APIConnectionError\<close> of its last line, whatever the payload and
  the session.
\<close>

theorem post_nonpositive_max_retry:
  "max_retry (conn_opts self) \<le> 0 \<Longrightarrow>
     post self payload =
       (Inl (APIConnectionError ''Failed to call Avatario API after all retries''), [])"
  by (simp add: post_def range_py_def)

theorem post_nonpositive_max_retry_witness:
  "max_retry (conn_opts (ok_client\<lparr>conn_opts := example_opts\<lparr>max_retry := 0\<rparr>\<rparr>)) \<le> 0 \<and>
   post (ok_client\<lparr>conn_opts := example_opts\<lparr>max_retry := 0\<rparr>\<rparr>) [(''agent_id'', PStr ''a'')] =
     (Inl (APIConnectionError ''Failed to call Avatario API after all retries''), [])"
  using post_nonpositive_max_retry
    [of "ok_client\<lparr>conn_opts := example_opts\<lparr>max_retry := 0\<rparr>\<rparr>" "[(''agent_id'', PStr ''a'')]"]
  by simp

section \<open>Claims about \<open>start_session\<close> and \<open>__init__\<close>\<close>

text \<open>
  C2, as stated, names the keys \<open>avatar_face_id\<close> and \<open>caller_properties\<close>; the dict
  literal of \<open>start_session\<close> has neither of them.
\<close>

theorem base_payload_keys_counterexample:
  "map_of (base_payload ''face'' ''agent'' []) \<noteq>
     [''avatar_face_id'' \<mapsto> PStr ''face'', ''agent_id'' \<mapsto> PStr ''agent'',
      ''caller_properties'' \<mapsto> PDict []]"
proof
  assume "map_of (base_payload ''face'' ''agent'' []) =
     [''avatar_face_id'' \<mapsto> PStr ''face'', ''agent_id'' \<mapsto> PStr ''agent'',
      ''caller_properties'' \<mapsto> PDict []]"
  then have "map_of (base_payload ''face'' ''agent'' []) ''avatar_face_id'' =
     [''avatar_face_id'' \<mapsto> PStr ''face'', ''agent_id'' \<mapsto> PStr ''agent'',
      ''caller_properties'' \<mapsto> PDict []] ''avatar_face_id''"
    by (rule arg_cong)
  then show False
    by (simp add: base_payload_def)
qed

text \<open>
  C2, amended: with an avatar id that resolves to a non-empty \<open>A\<close> and a non-empty agent
  identity \<open>G\<close>, \<open>start_session\<close> passes to \<open>_post\<close> the merge of the extra payload into
  the body \<open>{avatario_face_id: A, agent_id: G, livekit: P}\<close>, where \<open>P\<close> is the properties
  argument, or the empty dict when it is not given; without an extra payload that body is
  left as it is.
\<close>

theorem start_session_base_payload:
  assumes "or_getenv avatar_id (environ ''AVATARIO_REPLICA_ID'') = Some A" and "A \<noteq> []"
    and "G \<noteq> []"
  shows "start_session self environ avatar_id (Given G) properties extra_payload =
           post self (merge_extra (base_payload A G (or_empty_dict properties)) extra_payload) \<and>
         base_payload A G (or_empty_dict properties) =
           [(''avatario_face_id'', PStr A), (''agent_id'', PStr G),
            (''livekit'', PDict (case properties of NOT_GIVEN \<Rightarrow> [] | Given P \<Rightarrow> P))] \<and>
         merge_extra (base_payload A G (or_empty_dict properties)) NOT_GIVEN =
           base_payload A G (or_empty_dict properties)"
  using assms
  by (cases properties) (simp_all add: start_session_def base_payload_def merge_extra_def)

theorem start_session_base_payload_witness:
  "or_getenv (Given ''face'') (no_env ''AVATARIO_REPLICA_ID'') = Some ''face'' \<and>
   ''face'' \<noteq> [] \<and> ''agent'' \<noteq> [] \<and>
   start_session ok_client no_env (Given ''face'') (Given ''agent'') NOT_GIVEN NOT_GIVEN =
     post ok_client
       [(''avatario_face_id'', PStr ''face''), (''agent_id'', PStr ''agent''),
        (''livekit'', PDict [])]"
  using start_session_base_payload
    [of "Given ''face''" no_env "''face''" "''agent''" ok_client NOT_GIVEN NOT_GIVEN]
  by (simp add: merge_extra_def)




text \<open>
  C5, as stated, has construction fail when the resolved key is empty. With no argument
  and \<open>AVATARIO_API_KEY\<close> set to the empty string the resolved key is the empty string,
  which is not \<open>None\<close>: construction succeeds with an empty key.
\<close>

theorem init_empty_key_counterexample:
  "init empty_key_env always_ok NOT_GIVEN example_opts None =
     Inr \<lparr> api_key = [], conn_opts = example_opts, http_session = always_ok \<rparr>"
  by (simp add: init_def empty_key_env_def)

text \<open>
  C5, amended: \<open>__init__\<close> raises \<open>AvatarioException('AVATARIO_API_KEY must be set')\<close>
  exactly when the argument is not given or empty and the environment variable is unset;
  in particular it always does when both are unset. A given, non-empty argument is kept
  as the key, whatever the environment; otherwise the value of the environment variable
  is kept as the key, also when it is the empty string.
\<close>

theorem init_requires_key:
  "((init environ fresh key opts sess =
       Inl (AvatarioException ''AVATARIO_API_KEY must be set'')) =
    ((key = NOT_GIVEN \<or> key = Given []) \<and> environ ''AVATARIO_API_KEY'' = None)) \<and>
   (\<forall>s. key = Given s \<and> s \<noteq> [] \<longrightarrow>
      init environ fresh key opts sess =
        Inr \<lparr> api_key = s, conn_opts = opts,
              http_session = (case sess of Some h \<Rightarrow> h | None \<Rightarrow> fresh) \<rparr>) \<and>
   (\<forall>v. (key = NOT_GIVEN \<or> key = Given []) \<and> environ ''AVATARIO_API_KEY'' = Some v \<longrightarrow>
      init environ fresh key opts sess =
        Inr \<lparr> api_key = v, conn_opts = opts,
              http_session = (case sess of Some h \<Rightarrow> h | None \<Rightarrow> fresh) \<rparr>)"
  by (cases key) (auto simp: init_def split: option.splits)

theorem init_requires_key_witness:
  "init no_env always_ok NOT_GIVEN example_opts None =
     Inl (AvatarioException ''AVATARIO_API_KEY must be set'') \<and>
   init key_env always_ok (Given ''secret'') example_opts None =
     Inr \<lparr> api_key = ''secret'', conn_opts = example_opts, http_session = always_ok \<rparr> \<and>
   init key_env always_ok (Given []) example_opts None =
     Inr \<lparr> api_key = ''from_env'', conn_opts = example_opts, http_session = always_ok \<rparr>"
  using init_requires_key [of no_env always_ok NOT_GIVEN example_opts None]
    init_requires_key [of key_env always_ok "Given ''secret''" example_opts None]
    init_requires_key [of key_env always_ok "Given []" example_opts None]
  by (simp add: no_env_def key_env_def)

text \<open>
  C6: when the avatar id argument is not given or empty and \<open>AVATARIO_REPLICA_ID\<close> is
  unset or empty, \<open>start_session\<close> raises \<open>AvatarioException('avatar_id must be set')\<close>
  and its trace is empty: no request has been issued.
\<close>

theorem start_session_requires_avatar_id:
  assumes "avatar_id = NOT_GIVEN \<or> avatar_id = Given []"
    and "environ ''AVATARIO_REPLICA_ID'' = None \<or> environ ''AVATARIO_REPLICA_ID'' = Some []"
  shows "start_session self environ avatar_id livekit_agent_identity properties extra_payload =
           (Inl (AvatarioException ''avatar_id must be set''), [])"
  using assms by (auto simp: start_session_def)

theorem start_session_requires_avatar_id_witness:
  "(Given [] = (NOT_GIVEN :: string not_given_or) \<or> Given [] = (Given [] :: string not_given_or)) \<and>
   (no_env ''AVATARIO_REPLICA_ID'' = None \<or> no_env ''AVATARIO_REPLICA_ID'' = Some []) \<and>
   start_session ok_client no_env (Given []) (Given ''agent'') NOT_GIVEN NOT_GIVEN =
     (Inl (AvatarioException ''avatar_id must be set''), [])"
  using start_session_requires_avatar_id
    [of "Given []" no_env ok_client "Given ''agent''" NOT_GIVEN NOT_GIVEN]
  by (simp add: no_env_def)

text \<open>
  C7, as stated, has every call with a missing agent identity fail with the message about
  the identity. The avatar id is checked first: when both are missing the message is the
  one of the avatar id.
\<close>

theorem start_session_identity_message_counterexample:
  "start_session ok_client no_env NOT_GIVEN NOT_GIVEN NOT_GIVEN NOT_GIVEN =
     (Inl (AvatarioException ''avatar_id must be set''), []) \<and>
   ''avatar_id must be set'' \<noteq> identity_message"
  by (simp add: start_session_def no_env_def identity_message_def)

text \<open>
  C7, amended: when the agent identity is not given or empty, \<open>start_session\<close> raises an
  \<open>AvatarioException\<close> and its trace is empty; the message is the one that asks for the
  identity of the agent whenever the avatar id resolves to a non-empty string, and
  \<open>avatar_id must be set\<close> otherwise.
\<close>

theorem start_session_requires_identity:
  assumes "livekit_agent_identity = NOT_GIVEN \<or> livekit_agent_identity = Given []"
  shows "start_session self environ avatar_id livekit_agent_identity properties extra_payload =
           (Inl (AvatarioException
              (case or_getenv avatar_id (environ ''AVATARIO_REPLICA_ID'') of
                 None \<Rightarrow> ''avatar_id must be set''
               | Some a \<Rightarrow>
                   if a = [] then ''avatar_id must be set''
                   else ''the identity of agent needs to be provided to ensure its proper communication with avatario backend'')),
            [])"
  using assms by (auto simp: start_session_def identity_message_def split: option.splits)

theorem start_session_requires_identity_witness:
  "(Given [] = (NOT_GIVEN :: string not_given_or) \<or> Given [] = (Given [] :: string not_given_or)) \<and>
   start_session ok_client no_env (Given ''face'') (Given []) NOT_GIVEN NOT_GIVEN =
     (Inl (AvatarioException
        ''the identity of agent needs to be provided to ensure its proper communication with avatario backend''),
      [])"
  using start_session_requires_identity
    [of "Given []" ok_client no_env "Given ''face''" NOT_GIVEN NOT_GIVEN]
  by simp

end
